theory Spec2Isabelle
  imports Complex_Main "HOL-Library.Multiset"
begin

section \<open>Candlestick outlier detection and correction (binance_server.js)\<close>

text \<open>
  A shallow embedding of the handler \<open>getCandlesticks\<close> of \<open>src/binance_server.js\<close>
  (lines 85-172): the guard on the provider's answer, the first pass that builds the
  formatted candles, \<open>detectOutliers\<close>, the correction loop, the removal of the
  \<open>original\<close> flag and the reply.

  Numbers. A JavaScript number is an IEEE double. The embedding takes the parsed
  fields of a candle as real numbers, so rounding, infinities and NaN fields are
  outside the model; the results below are about the algorithm's structure (which
  candle is emitted where, which element of which sorted array is read, which formula
  gives the thresholds). The one place where the code itself can produce
  \<open>undefined\<close> (reading an empty array in \<open>detectOutliers\<close>) is modelled: see
  \<open>js_index\<close>.
\<close>

subsection \<open>Data\<close>

text \<open>
  The object built by the first pass (lines 99-107) has the six fields of a candle
  and the flag \<open>original\<close>; the reply (line 162) has the six fields only.
  \<open>time\<close> is the \<open>Date\<close> made from \<open>openTime\<close>, as milliseconds since the epoch.
\<close>

record candle =
  time :: int
  "open" :: real
  high :: real
  low :: real
  close :: real
  volume :: real

record fcandle = candle +
  original :: bool

text \<open>The object returned by \<open>detectOutliers\<close> (line 129).\<close>

record outlier_stats =
  median :: real
  mad :: real
  threshold :: real
  lowerThreshold :: real

text \<open>The two variables the loop mutates (lines 135-136).\<close>

record scan_state =
  previousValidCandle :: "fcandle option"
  cleanedCandles :: "fcandle list"

text \<open>
  What \<open>binanceClient.candlesticks\<close> hands to the handler: the promise rejects with
  an error (its message), or resolves to a value that is \<open>null\<close>/\<open>undefined\<close>
  (\<open>None\<close>) or an array of candles.
\<close>

datatype provider_result = Rejected string | Resolved "candle list option"

text \<open>The reply: \<open>res.json(finalCandles)\<close> or \<open>res.status(500).json({error, details})\<close>.\<close>

datatype payload = Candles "candle list" | ErrorPayload string "string option"

record response =
  status :: nat
  body :: payload

subsection \<open>detectOutliers (lines 110-130)\<close>

text \<open>\<open>xs[i]\<close> in JavaScript: \<open>undefined\<close> (here \<open>None\<close>) out of range.\<close>

definition js_index :: "'a list \<Rightarrow> nat \<Rightarrow> 'a option" where
  "js_index xs i = (if i < length xs then Some (xs ! i) else None)"

definition typicalPrices :: "'a candle_scheme list \<Rightarrow> real list" where
  "typicalPrices candles = map (\<lambda>c. (high c + low c + close c) / 3) candles"

text \<open>
  \<open>[...xs].sort((a, b) => a - b)\<close> on numbers is the ascending sort.
  \<open>Math.floor(n / 2)\<close> on an array length is \<open>n div 2\<close>.
  The result is \<open>None\<close> where the code reads \<open>undefined\<close> for the median or the
  MAD; every threshold is then NaN.
\<close>

definition detectOutliers :: "'a candle_scheme list \<Rightarrow> outlier_stats option" where
  "detectOutliers candles =
    (let multiplier = 5;
         sortedPrices = sort (typicalPrices candles)
     in case js_index sortedPrices (length sortedPrices div 2) of
          None \<Rightarrow> None
        | Some med \<Rightarrow>
            (let deviations = sort (map (\<lambda>p. \<bar>p - med\<bar>) sortedPrices)
             in case js_index deviations (length deviations div 2) of
                  None \<Rightarrow> None
                | Some dev \<Rightarrow>
                    Some \<lparr>median = med, mad = dev,
                          threshold = med + (multiplier * 1.4826 * dev),
                          lowerThreshold = med - (multiplier * 1.4826 * dev)\<rparr>))"

subsection \<open>The correction loop (lines 138-159)\<close>

text \<open>
  The two tests of lines 143-144. With NaN thresholds (\<open>None\<close>) every comparison is
  false.
\<close>

definition isOutlierHigh :: "outlier_stats option \<Rightarrow> 'a candle_scheme \<Rightarrow> bool" where
  "isOutlierHigh st current =
    (case st of None \<Rightarrow> False
     | Some s \<Rightarrow> high current > threshold s \<or> high current < lowerThreshold s)"

definition isOutlierLow :: "outlier_stats option \<Rightarrow> 'a candle_scheme \<Rightarrow> bool" where
  "isOutlierLow st current =
    (case st of None \<Rightarrow> False
     | Some s \<Rightarrow> low current > threshold s \<or> low current < lowerThreshold s)"

text \<open>
  The object literal of lines 148-153: the stored candle spread, then \<open>time\<close>,
  \<open>volume\<close> and \<open>original\<close> overwritten.
\<close>

definition corrected :: "fcandle \<Rightarrow> fcandle \<Rightarrow> fcandle" where
  "corrected prev current =
     prev\<lparr>time := time current, volume := volume current, original := False\<rparr>"

text \<open>
  One iteration. \<open>previousValidCandle && (...)\<close> is true when a candle is stored
  (an object is truthy) and one of the two tests holds; in every other case the
  \<open>else\<close> branch stores the current candle.
\<close>

definition loop_body :: "outlier_stats option \<Rightarrow> scan_state \<Rightarrow> fcandle \<Rightarrow> scan_state" where
  "loop_body st s current =
    (case previousValidCandle s of
       Some prev \<Rightarrow>
         if isOutlierHigh st current \<or> isOutlierLow st current
         then s\<lparr>cleanedCandles := cleanedCandles s @ [corrected prev current]\<rparr>
         else \<lparr>previousValidCandle = Some current,
               cleanedCandles = cleanedCandles s @ [current]\<rparr>
     | None \<Rightarrow>
         \<lparr>previousValidCandle = Some current,
          cleanedCandles = cleanedCandles s @ [current]\<rparr>)"

definition initial_state :: scan_state where
  "initial_state = \<lparr>previousValidCandle = None, cleanedCandles = []\<rparr>"

definition run_loop :: "outlier_stats option \<Rightarrow> fcandle list \<Rightarrow> scan_state" where
  "run_loop st formatted = foldl (loop_body st) initial_state formatted"

subsection \<open>The handler (lines 85-172)\<close>

text \<open>First pass (lines 99-107) and removal of the flag (line 162).\<close>

definition format_candle :: "candle \<Rightarrow> fcandle" where
  "format_candle c =
     \<lparr>time = time c, open = open c, high = high c, low = low c, close = close c,
      volume = volume c, original = True\<rparr>"

definition strip_original :: "fcandle \<Rightarrow> candle" where
  "strip_original c =
     \<lparr>time = time c, open = open c, high = high c, low = low c, close = close c,
      volume = volume c\<rparr>"

text \<open>
  Lines 98-162, the part the specification calls \<open>sanitize\<close>: both passes and the
  final map.
\<close>

definition sanitize :: "candle list \<Rightarrow> candle list" where
  "sanitize candles =
    (let formatted = map format_candle candles;
         st = detectOutliers formatted;
         final = run_loop st formatted
     in map strip_original (cleanedCandles final))"

text \<open>The body of \<open>try\<close>: \<open>Inl\<close> is the message of the error thrown.\<close>

definition try_block :: "provider_result \<Rightarrow> string + candle list" where
  "try_block r =
    (case r of
       Rejected msg \<Rightarrow> Inl msg
     | Resolved None \<Rightarrow> Inl ''No candle data received from Binance''
     | Resolved (Some candles) \<Rightarrow>
         if length candles = 0 then Inl ''No candle data received from Binance''
         else Inr (sanitize candles))"

definition getCandlesticks :: "provider_result \<Rightarrow> response" where
  "getCandlesticks r =
    (case try_block r of
       Inr finalCandles \<Rightarrow> \<lparr>status = 200, body = Candles finalCandles\<rparr>
     | Inl msg \<Rightarrow>
         \<lparr>status = 500,
          body = ErrorPayload msg (Some ''Failed to fetch candle data from Binance API'')\<rparr>)"

subsection \<open>Names for what the loop decides\<close>

text \<open>The condition \<open>(isOutlierHigh || isOutlierLow)\<close> of line 147.\<close>

definition flagged :: "outlier_stats option \<Rightarrow> 'a candle_scheme \<Rightarrow> bool" where
  "flagged st c = (isOutlierHigh st c \<or> isOutlierLow st c)"

text \<open>
  The value of the variable \<open>candleToAdd\<close> at line 158, from the stored candle and
  the current one.
\<close>

definition candleToAdd :: "outlier_stats option \<Rightarrow> fcandle option \<Rightarrow> fcandle \<Rightarrow> fcandle" where
  "candleToAdd st prev current =
     (case prev of
        Some p \<Rightarrow> if flagged st current then corrected p current else current
      | None \<Rightarrow> current)"

text \<open>The state of the handler's loop when \<open>i = k\<close>: after \<open>k\<close> iterations.\<close>

definition state_after :: "candle list \<Rightarrow> nat \<Rightarrow> scan_state" where
  "state_after candles k =
     run_loop (detectOutliers (map format_candle candles)) (take k (map format_candle candles))"

subsection \<open>The statistics as the specification words them\<close>

text \<open>
  Section 4.1 of the specification, steps 1 to 3: the typical price of a candle,
  the element at index \<open>floor(n/2)\<close> of the ascending sort of a series, and the
  same element of the sorted absolute deviations of the series from its median.
\<close>

definition spec_typical_price :: "'a candle_scheme \<Rightarrow> real" where
  "spec_typical_price c = (high c + low c + close c) / 3"

definition spec_median :: "real list \<Rightarrow> real" where
  "spec_median ts = sort ts ! (length ts div 2)"

definition spec_mad :: "real list \<Rightarrow> real" where
  "spec_mad ts = spec_median (map (\<lambda>t. \<bar>t - spec_median ts\<bar>) ts)"

subsection \<open>Concrete inputs\<close>

text \<open>Two leading candles far above the band, then three ordinary ones.\<close>

definition leading_outliers :: "candle list" where
  "leading_outliers =
    [\<lparr>time = 1, open = 1000, high = 1000, low = 1000, close = 1000, volume = 11\<rparr>,
     \<lparr>time = 2, open = 2000, high = 2000, low = 2000, close = 2000, volume = 12\<rparr>,
     \<lparr>time = 3, open = 100, high = 100, low = 100, close = 100, volume = 13\<rparr>,
     \<lparr>time = 4, open = 101, high = 101, low = 101, close = 101, volume = 14\<rparr>,
     \<lparr>time = 5, open = 99, high = 99, low = 99, close = 99, volume = 15\<rparr>]"

text \<open>
  The scenario of section 8 of the specification: typical prices
  \<open>100, 101, 99, 102, 5000\<close>.
\<close>

definition spike_scenario :: "candle list" where
  "spike_scenario =
    [\<lparr>time = 1, open = 100, high = 101, low = 99, close = 100, volume = 21\<rparr>,
     \<lparr>time = 2, open = 100, high = 102, low = 100, close = 101, volume = 22\<rparr>,
     \<lparr>time = 3, open = 101, high = 100, low = 98, close = 99, volume = 23\<rparr>,
     \<lparr>time = 4, open = 99, high = 103, low = 101, close = 102, volume = 24\<rparr>,
     \<lparr>time = 5, open = 102, high = 5001, low = 4999, close = 5000, volume = 25\<rparr>]"

text \<open>The same with an ordinary last candle: nothing is outside the band.\<close>

definition clean_scenario :: "candle list" where
  "clean_scenario =
    [\<lparr>time = 1, open = 100, high = 101, low = 99, close = 100, volume = 21\<rparr>,
     \<lparr>time = 2, open = 100, high = 102, low = 100, close = 101, volume = 22\<rparr>,
     \<lparr>time = 3, open = 101, high = 100, low = 98, close = 99, volume = 23\<rparr>,
     \<lparr>time = 4, open = 99, high = 103, low = 101, close = 102, volume = 24\<rparr>,
     \<lparr>time = 5, open = 102, high = 101, low = 99, close = 100, volume = 25\<rparr>]"

text \<open>Four equal flat candles and a higher one: the MAD is 0.\<close>

definition flat_scenario :: "candle list" where
  "flat_scenario =
    [\<lparr>time = 1, open = 100, high = 100, low = 100, close = 100, volume = 31\<rparr>,
     \<lparr>time = 2, open = 100, high = 100, low = 100, close = 100, volume = 32\<rparr>,
     \<lparr>time = 3, open = 100, high = 100, low = 100, close = 100, volume = 33\<rparr>,
     \<lparr>time = 4, open = 100, high = 100, low = 100, close = 100, volume = 34\<rparr>,
     \<lparr>time = 5, open = 150, high = 200, low = 200, close = 200, volume = 35\<rparr>]"

section \<open>The loop, one iteration at a time\<close>

lemma cleaned_loop_body:
  "cleanedCandles (loop_body st s c) =
     cleanedCandles s @ [candleToAdd st (previousValidCandle s) c]"
  by (simp add: loop_body_def candleToAdd_def flagged_def split: option.splits)

lemma previous_loop_body:
  "previousValidCandle (loop_body st s c) =
     (if previousValidCandle s \<noteq> None \<and> flagged st c then previousValidCandle s else Some c)"
  by (auto simp add: loop_body_def flagged_def split: option.splits)

text \<open>Every iteration appends exactly one candle and leaves the emitted ones alone.\<close>

lemma cleaned_foldl:
  "\<exists>ys. cleanedCandles (foldl (loop_body st) s xs) = cleanedCandles s @ ys
        \<and> length ys = length xs"
proof (induction xs arbitrary: s)
  case Nil
  show ?case by simp
next
  case (Cons x xs)
  from Cons.IH [of "loop_body st s x"] obtain ys where
    "cleanedCandles (foldl (loop_body st) (loop_body st s x) xs)
       = cleanedCandles (loop_body st s x) @ ys"
    "length ys = length xs" by blast
  then show ?case by (simp add: cleaned_loop_body)
qed

lemma length_cleaned_run: "length (cleanedCandles (run_loop st xs)) = length xs"
  using cleaned_foldl [of st initial_state xs] by (auto simp: run_loop_def initial_state_def)

lemma run_loop_split:
  assumes "k < length xs"
  shows "run_loop st xs =
           foldl (loop_body st) (loop_body st (run_loop st (take k xs)) (xs ! k)) (drop (Suc k) xs)"
proof -
  have "xs = take k xs @ xs ! k # drop (Suc k) xs"
    using assms by (simp add: id_take_nth_drop)
  then have "run_loop st xs
               = foldl (loop_body st) initial_state (take k xs @ xs ! k # drop (Suc k) xs)"
    by (simp add: run_loop_def)
  then show ?thesis by (simp add: run_loop_def)
qed

lemma run_loop_Suc:
  assumes "k < length xs"
  shows "run_loop st (take (Suc k) xs) = loop_body st (run_loop st (take k xs)) (xs ! k)"
  using assms by (simp add: run_loop_def take_Suc_conv_app_nth)

lemma cleaned_run_nth:
  assumes "k < length xs"
  shows "cleanedCandles (run_loop st xs) ! k =
           candleToAdd st (previousValidCandle (run_loop st (take k xs))) (xs ! k)"
proof -
  let ?s = "run_loop st (take k xs)"
  obtain ys where
    ys: "cleanedCandles (run_loop st xs) = cleanedCandles (loop_body st ?s (xs ! k)) @ ys"
    using cleaned_foldl [of st "loop_body st ?s (xs ! k)" "drop (Suc k) xs"]
      run_loop_split [OF assms, of st]
    by auto
  have len: "length (cleanedCandles ?s) = k"
    using assms by (simp add: length_cleaned_run)
  show ?thesis
    using len by (simp add: ys cleaned_loop_body nth_append)
qed

section \<open>The two passes on the handler's input\<close>

lemma typicalPrices_format: "typicalPrices (map format_candle cs) = typicalPrices cs"
  by (simp add: typicalPrices_def format_candle_def)

lemma detectOutliers_format: "detectOutliers (map format_candle cs) = detectOutliers cs"
  by (simp add: detectOutliers_def typicalPrices_format)

lemma flagged_format: "flagged st (format_candle c) = flagged st c"
  by (cases st) (simp_all add: flagged_def isOutlierHigh_def isOutlierLow_def format_candle_def)

lemma strip_format: "strip_original (format_candle c) = c"
  by (simp add: strip_original_def format_candle_def)

lemma strip_corrected:
  "strip_original (corrected (format_candle p) (format_candle c)) =
     p\<lparr>time := time c, volume := volume c\<rparr>"
  by (simp add: strip_original_def format_candle_def corrected_def)

lemma state_after_0: "previousValidCandle (state_after cs 0) = None"
  by (simp add: state_after_def run_loop_def initial_state_def)

lemma state_after_Suc:
  assumes "k < length cs"
  shows "previousValidCandle (state_after cs (Suc k)) =
          (if previousValidCandle (state_after cs k) \<noteq> None \<and> flagged (detectOutliers cs) (cs ! k)
           then previousValidCandle (state_after cs k)
           else Some (format_candle (cs ! k)))"
  using assms
  by (simp add: state_after_def run_loop_Suc previous_loop_body detectOutliers_format
        flagged_format)

lemma sanitize_nth:
  assumes "k < length cs"
  shows "sanitize cs ! k =
          strip_original
            (candleToAdd (detectOutliers cs) (previousValidCandle (state_after cs k))
               (format_candle (cs ! k)))"
  using assms
  by (simp add: sanitize_def Let_def length_cleaned_run cleaned_run_nth state_after_def
        detectOutliers_format)

lemma length_sanitize: "length (sanitize cs) = length cs"
  by (simp add: sanitize_def Let_def length_cleaned_run)

text \<open>The stored candle is always one of the candles already read.\<close>

lemma stored_is_input:
  "k \<le> length cs \<Longrightarrow> previousValidCandle (state_after cs k) = Some p \<Longrightarrow>
     \<exists>j<k. p = format_candle (cs ! j)"
proof (induction k arbitrary: p)
  case 0
  then show ?case by (simp add: state_after_0)
next
  case (Suc k)
  then have k: "k < length cs" by simp
  show ?case
  proof (cases "previousValidCandle (state_after cs k) \<noteq> None
                  \<and> flagged (detectOutliers cs) (cs ! k)")
    case True
    with Suc.prems k have "previousValidCandle (state_after cs k) = Some p"
      by (simp add: state_after_Suc)
    with Suc.IH k obtain j where "j < k" "p = format_candle (cs ! j)" by auto
    then show ?thesis using less_Suc_eq by blast
  next
    case False
    with Suc.prems k have "p = format_candle (cs ! k)"
      by (auto simp add: state_after_Suc)
    then show ?thesis by blast
  qed
qed

text \<open>After the first iteration a candle is always stored.\<close>

lemma stored_after_first:
  "k < length cs \<Longrightarrow> previousValidCandle (state_after cs (Suc k)) \<noteq> None"
  by (simp add: state_after_Suc)

text \<open>What one iteration does with an unflagged candle, and with a flagged one.\<close>

lemma unflagged_step:
  assumes "j < length cs" and "\<not> flagged (detectOutliers cs) (cs ! j)"
  shows "sanitize cs ! j = cs ! j"
    and "previousValidCandle (state_after cs (Suc j)) = Some (format_candle (cs ! j))"
  using assms
  by (simp_all add: sanitize_nth state_after_Suc candleToAdd_def flagged_format strip_format
        split: option.splits)

lemma flagged_step:
  assumes "k < length cs" and "flagged (detectOutliers cs) (cs ! k)"
    and "previousValidCandle (state_after cs k) = Some p"
  shows "sanitize cs ! k = strip_original (corrected p (format_candle (cs ! k)))"
    and "previousValidCandle (state_after cs (Suc k)) = Some p"
  using assms
  by (simp_all add: sanitize_nth state_after_Suc candleToAdd_def flagged_format)

lemma first_step:
  assumes "cs \<noteq> []" shows "sanitize cs ! 0 = cs ! 0"
  using assms by (simp add: sanitize_nth state_after_0 candleToAdd_def strip_format)

lemma fields_strip_corrected:
  "strip_original (corrected p c) =
     \<lparr>time = time c, open = open p, high = high p, low = low p, close = close p,
      volume = volume c\<rparr>"
  by (simp add: strip_original_def corrected_def)

section \<open>The statistics\<close>

text \<open>
  The code takes the deviations of the sorted prices, the specification those of the
  prices in input order; after sorting they are the same list.
\<close>

lemma sort_map_sort:
  fixes f :: "real \<Rightarrow> real"
  shows "sort (map f (sort xs)) = sort (map f xs)"
  by (rule properties_for_sort) simp_all

text \<open>
  On an even number of elements, index \<open>floor(n/2)\<close> is the upper of the two
  central elements.
\<close>

lemma spec_median_even_length: "spec_median [1, 2, 3, 4] = 3"
  by (simp add: spec_median_def)

lemma detectOutliers_nonempty:
  assumes "cs \<noteq> []"
  shows "detectOutliers cs =
    Some \<lparr>median = spec_median (map spec_typical_price cs),
          mad = spec_mad (map spec_typical_price cs),
          threshold = spec_median (map spec_typical_price cs)
                        + 5 * 1.4826 * spec_mad (map spec_typical_price cs),
          lowerThreshold = spec_median (map spec_typical_price cs)
                        - 5 * 1.4826 * spec_mad (map spec_typical_price cs)\<rparr>"
proof -
  let ?ts = "map spec_typical_price cs"
  have tp: "typicalPrices cs = ?ts"
    by (simp add: typicalPrices_def spec_typical_price_def)
  have n: "length cs div 2 < length cs"
    using assms by (cases cs) simp_all
  have med: "js_index (sort ?ts) (length (sort ?ts) div 2) = Some (spec_median ?ts)"
    using n by (simp add: js_index_def spec_median_def)
  have dev: "js_index (sort (map (\<lambda>p. \<bar>p - spec_median ?ts\<bar>) (sort ?ts)))
               (length (sort (map (\<lambda>p. \<bar>p - spec_median ?ts\<bar>) (sort ?ts))) div 2)
             = Some (spec_mad ?ts)"
    using n by (simp add: js_index_def spec_mad_def sort_map_sort) (simp add: spec_median_def)
  show ?thesis
    unfolding detectOutliers_def tp Let_def med dev option.case by simp
qed

lemma thresholds_of_stats:
  assumes "detectOutliers cs = Some s"
  shows "threshold s = median s + 5 * 1.4826 * mad s"
    and "lowerThreshold s = median s - 5 * 1.4826 * mad s"
  using assms by (auto simp add: detectOutliers_def Let_def split: option.splits)

section \<open>Evaluation on the concrete inputs\<close>

lemmas eval_defs = run_loop_def initial_state_def loop_body_def
        isOutlierHigh_def isOutlierLow_def corrected_def format_candle_def strip_original_def

lemma stats_leading_outliers:
  "detectOutliers leading_outliers =
     Some \<lparr>median = 101, mad = 2, threshold = 115.826, lowerThreshold = 86.174\<rparr>"
  by (simp add: detectOutliers_def typicalPrices_def js_index_def leading_outliers_def)

lemma sanitize_leading_outliers:
  "sanitize leading_outliers =
    [\<lparr>time = 1, open = 1000, high = 1000, low = 1000, close = 1000, volume = 11\<rparr>,
     \<lparr>time = 2, open = 1000, high = 1000, low = 1000, close = 1000, volume = 12\<rparr>,
     \<lparr>time = 3, open = 100, high = 100, low = 100, close = 100, volume = 13\<rparr>,
     \<lparr>time = 4, open = 101, high = 101, low = 101, close = 101, volume = 14\<rparr>,
     \<lparr>time = 5, open = 99, high = 99, low = 99, close = 99, volume = 15\<rparr>]"
  unfolding sanitize_def Let_def detectOutliers_format stats_leading_outliers
  by (simp add: leading_outliers_def eval_defs)

lemma stats_spike_scenario:
  "detectOutliers spike_scenario =
     Some \<lparr>median = 101, mad = 1, threshold = 108.413, lowerThreshold = 93.587\<rparr>"
  by (simp add: detectOutliers_def typicalPrices_def js_index_def spike_scenario_def)

lemma sanitize_spike_scenario:
  "sanitize spike_scenario =
    [\<lparr>time = 1, open = 100, high = 101, low = 99, close = 100, volume = 21\<rparr>,
     \<lparr>time = 2, open = 100, high = 102, low = 100, close = 101, volume = 22\<rparr>,
     \<lparr>time = 3, open = 101, high = 100, low = 98, close = 99, volume = 23\<rparr>,
     \<lparr>time = 4, open = 99, high = 103, low = 101, close = 102, volume = 24\<rparr>,
     \<lparr>time = 5, open = 99, high = 103, low = 101, close = 102, volume = 25\<rparr>]"
  unfolding sanitize_def Let_def detectOutliers_format stats_spike_scenario
  by (simp add: spike_scenario_def eval_defs)

lemma stats_clean_scenario:
  "detectOutliers clean_scenario =
     Some \<lparr>median = 100, mad = 1, threshold = 107.413, lowerThreshold = 92.587\<rparr>"
  by (simp add: detectOutliers_def typicalPrices_def js_index_def clean_scenario_def)

lemma stats_flat_scenario:
  "detectOutliers flat_scenario =
     Some \<lparr>median = 100, mad = 0, threshold = 100, lowerThreshold = 100\<rparr>"
  by (simp add: detectOutliers_def typicalPrices_def js_index_def flat_scenario_def)

lemma sanitize_flat_scenario:
  "sanitize flat_scenario =
    [\<lparr>time = 1, open = 100, high = 100, low = 100, close = 100, volume = 31\<rparr>,
     \<lparr>time = 2, open = 100, high = 100, low = 100, close = 100, volume = 32\<rparr>,
     \<lparr>time = 3, open = 100, high = 100, low = 100, close = 100, volume = 33\<rparr>,
     \<lparr>time = 4, open = 100, high = 100, low = 100, close = 100, volume = 34\<rparr>,
     \<lparr>time = 5, open = 100, high = 100, low = 100, close = 100, volume = 35\<rparr>]"
  unfolding sanitize_def Let_def detectOutliers_format stats_flat_scenario
  by (simp add: flat_scenario_def eval_defs)

section \<open>Claims\<close>

subsection \<open>C1: leading flagged candles\<close>

text \<open>
  C1. The claim: a flagged candle met while no candle is stored is emitted unchanged
  and is not stored, so every candle of a leading run of flagged candles is emitted
  unmodified. The code does not do this. The variable is named
  \<open>previousValidCandle\<close> and the comment of line 146 speaks of a previous valid
  candle, but the catch-all \<open>else\<close> of lines 154-156 also runs when no candle is
  stored and the current one is flagged, and stores it. On \<open>leading_outliers\<close> the
  first two candles are both flagged; after the first iteration the first candle is
  the stored one, and the second candle is emitted with the first candle's prices
  (1000, themselves outside the band from 86.174 to 115.826) instead of its own.
\<close>

theorem leading_run_not_passed_through:
  "flagged (detectOutliers leading_outliers) (leading_outliers ! 0)
   \<and> flagged (detectOutliers leading_outliers) (leading_outliers ! 1)
   \<and> previousValidCandle (state_after leading_outliers 1)
       = Some (format_candle (leading_outliers ! 0))
   \<and> sanitize leading_outliers ! 1
       = \<lparr>time = 2, open = 1000, high = 1000, low = 1000, close = 1000, volume = 12\<rparr>
   \<and> flagged (detectOutliers leading_outliers) (sanitize leading_outliers ! 1)
   \<and> sanitize leading_outliers ! 1 \<noteq> leading_outliers ! 1"
proof -
  have "sanitize leading_outliers ! 1
       = \<lparr>time = 2, open = 1000, high = 1000, low = 1000, close = 1000, volume = 12\<rparr>"
    unfolding sanitize_leading_outliers by simp
  moreover have "flagged (detectOutliers leading_outliers) (sanitize leading_outliers ! 1)"
    unfolding stats_leading_outliers sanitize_leading_outliers
    by (simp add: flagged_def isOutlierHigh_def isOutlierLow_def)
  moreover
  have "flagged (detectOutliers leading_outliers) (leading_outliers ! 0)"
    unfolding stats_leading_outliers
    by (simp add: flagged_def isOutlierHigh_def isOutlierLow_def leading_outliers_def)
  moreover have "flagged (detectOutliers leading_outliers) (leading_outliers ! 1)"
    unfolding stats_leading_outliers
    by (simp add: flagged_def isOutlierHigh_def isOutlierLow_def leading_outliers_def)
  moreover have "previousValidCandle (state_after leading_outliers 1)
       = Some (format_candle (leading_outliers ! 0))"
    unfolding state_after_def detectOutliers_format stats_leading_outliers
    by (simp add: leading_outliers_def eval_defs)
  moreover have "sanitize leading_outliers ! 1 \<noteq> leading_outliers ! 1"
    unfolding sanitize_leading_outliers by (simp add: leading_outliers_def)
  ultimately show ?thesis by blast
qed

subsection \<open>C2: substitution after an accepted candle\<close>

text \<open>
  C2. If candle \<open>k\<close> is flagged and candle \<open>k - 1\<close> is not, the candle emitted at
  index \<open>k\<close> has the open, high, low and close of the candle emitted at \<open>k - 1\<close>
  and the time and volume of input candle \<open>k\<close>; the stored candle is candle
  \<open>k - 1\<close> before the iteration and is the same after it.
\<close>

theorem substitution_after_accepted:
  assumes "1 \<le> k" and "k < length cs"
    and "flagged (detectOutliers cs) (cs ! k)"
    and "\<not> flagged (detectOutliers cs) (cs ! (k - 1))"
  shows "open (sanitize cs ! k) = open (sanitize cs ! (k - 1))
    \<and> high (sanitize cs ! k) = high (sanitize cs ! (k - 1))
    \<and> low (sanitize cs ! k) = low (sanitize cs ! (k - 1))
    \<and> close (sanitize cs ! k) = close (sanitize cs ! (k - 1))
    \<and> time (sanitize cs ! k) = time (cs ! k)
    \<and> volume (sanitize cs ! k) = volume (cs ! k)
    \<and> previousValidCandle (state_after cs k) = Some (format_candle (cs ! (k - 1)))
    \<and> previousValidCandle (state_after cs (Suc k)) = previousValidCandle (state_after cs k)"
proof -
  obtain j where j: "k = Suc j" using assms(1) by (cases k) simp_all
  have jl: "j < length cs" using assms(2) j by simp
  have nf: "\<not> flagged (detectOutliers cs) (cs ! j)" using assms(4) j by simp
  have out_j: "sanitize cs ! j = cs ! j"
    and st: "previousValidCandle (state_after cs k) = Some (format_candle (cs ! j))"
    using unflagged_step [OF jl nf] j by simp_all
  have out_k: "sanitize cs ! k = (cs ! j)\<lparr>time := time (cs ! k), volume := volume (cs ! k)\<rparr>"
    and st': "previousValidCandle (state_after cs (Suc k)) = Some (format_candle (cs ! j))"
    using flagged_step [OF assms(2) assms(3) st] by (simp_all add: strip_corrected)
  show ?thesis
    using out_j out_k st st' j by simp
qed

text \<open>C2 on the scenario of the specification, \<open>k = 4\<close>.\<close>

theorem substitution_after_accepted_witness:
  "(1::nat) \<le> 4 \<and> 4 < length spike_scenario
   \<and> flagged (detectOutliers spike_scenario) (spike_scenario ! 4)
   \<and> \<not> flagged (detectOutliers spike_scenario) (spike_scenario ! (4 - 1))
   \<and> sanitize spike_scenario ! 4
       = \<lparr>time = 5, open = 99, high = 103, low = 101, close = 102, volume = 25\<rparr>
   \<and> sanitize spike_scenario ! (4 - 1)
       = \<lparr>time = 4, open = 99, high = 103, low = 101, close = 102, volume = 24\<rparr>
   \<and> previousValidCandle (state_after spike_scenario (Suc 4))
       = Some (format_candle (spike_scenario ! (4 - 1)))"
proof -
  have a: "(1::nat) \<le> 4" by simp
  have b: "4 < length spike_scenario" by (simp add: spike_scenario_def)
  have c: "flagged (detectOutliers spike_scenario) (spike_scenario ! 4)"
    unfolding stats_spike_scenario
    by (simp add: flagged_def isOutlierHigh_def isOutlierLow_def spike_scenario_def)
  have d: "\<not> flagged (detectOutliers spike_scenario) (spike_scenario ! (4 - 1))"
    unfolding stats_spike_scenario
    by (simp add: flagged_def isOutlierHigh_def isOutlierLow_def spike_scenario_def)
  have e: "sanitize spike_scenario ! 4
       = \<lparr>time = 5, open = 99, high = 103, low = 101, close = 102, volume = 25\<rparr>"
    and f: "sanitize spike_scenario ! (4 - 1)
       = \<lparr>time = 4, open = 99, high = 103, low = 101, close = 102, volume = 24\<rparr>"
    unfolding sanitize_spike_scenario by simp_all
  from substitution_after_accepted [OF a b c d]
  have "previousValidCandle (state_after spike_scenario (Suc 4))
       = Some (format_candle (spike_scenario ! (4 - 1)))" by simp
  with a b c d e f show ?thesis by blast
qed

subsection \<open>C3: the statistics\<close>

text \<open>
  C3. For a non-empty input \<open>detectOutliers\<close> returns: as median, the element at
  index \<open>floor(n/2)\<close> of the ascending sort of the typical prices
  \<open>(high + low + close) / 3\<close>; as MAD, the element at the same index of the
  ascending sort of the absolute deviations of the typical prices from that
  median; as thresholds, \<open>median \<plusminus> 5 * 1.4826 * MAD\<close>. The handler computes them
  once, from the whole input, and every iteration of the loop uses the same values.
\<close>

theorem statistics_as_specified:
  assumes "cs \<noteq> []"
  shows "detectOutliers cs =
      Some \<lparr>median = spec_median (map spec_typical_price cs),
            mad = spec_mad (map spec_typical_price cs),
            threshold = spec_median (map spec_typical_price cs)
                          + 5 * 1.4826 * spec_mad (map spec_typical_price cs),
            lowerThreshold = spec_median (map spec_typical_price cs)
                          - 5 * 1.4826 * spec_mad (map spec_typical_price cs)\<rparr>
    \<and> sanitize cs =
        map strip_original
          (cleanedCandles
             (foldl (loop_body (detectOutliers cs)) initial_state (map format_candle cs)))"
  using assms
  by (simp add: detectOutliers_nonempty sanitize_def Let_def run_loop_def detectOutliers_format)

text \<open>C3 on the scenario of the specification.\<close>

theorem statistics_as_specified_witness:
  "spike_scenario \<noteq> []
   \<and> map spec_typical_price spike_scenario = [100, 101, 99, 102, 5000]
   \<and> spec_median (map spec_typical_price spike_scenario) = 101
   \<and> spec_mad (map spec_typical_price spike_scenario) = 1
   \<and> detectOutliers spike_scenario =
       Some \<lparr>median = 101, mad = 1, threshold = 108.413, lowerThreshold = 93.587\<rparr>"
proof -
  have ne: "spike_scenario \<noteq> []" by (simp add: spike_scenario_def)
  have tp: "map spec_typical_price spike_scenario = [100, 101, 99, 102, 5000]"
    by (simp add: spike_scenario_def spec_typical_price_def)
  have md: "spec_median [100, 101, 99, 102, 5000] = 101"
    by (simp add: spec_median_def)
  have ma: "spec_mad [100, 101, 99, 102, 5000] = 1"
    unfolding spec_mad_def md by (simp add: spec_median_def)
  show ?thesis
    using statistics_as_specified [OF ne] ne unfolding tp md ma by simp
qed

subsection \<open>C4: the test\<close>

text \<open>
  C4. The condition of line 147 holds for a candle exactly when its high is above
  the upper or below the lower threshold, or its low is above the upper or below the
  lower threshold; changing its open and close does not change the outcome; and with
  a candle stored, the loop takes the correcting branch exactly under that condition.
\<close>

theorem flagged_iff_high_or_low_outside:
  "(flagged (Some s) c \<longleftrightarrow>
      high c > threshold s \<or> high c < lowerThreshold s
      \<or> low c > threshold s \<or> low c < lowerThreshold s)
   \<and> flagged (Some s) (c\<lparr>open := o', close := c'\<rparr>) = flagged (Some s) c
   \<and> (previousValidCandle st = Some p \<longrightarrow>
        loop_body (Some s) st cur =
          (if high cur > threshold s \<or> high cur < lowerThreshold s
              \<or> low cur > threshold s \<or> low cur < lowerThreshold s
           then st\<lparr>cleanedCandles := cleanedCandles st @ [corrected p cur]\<rparr>
           else \<lparr>previousValidCandle = Some cur,
                 cleanedCandles = cleanedCandles st @ [cur]\<rparr>))"
  by (auto simp add: flagged_def isOutlierHigh_def isOutlierLow_def loop_body_def)

text \<open>
  C4 on a candle inside the band, whatever its open and close, and on the last
  iteration of the specification's scenario.
\<close>

theorem flagged_iff_high_or_low_outside_witness:
  "\<not> flagged (Some \<lparr>median = 101, mad = 1, threshold = 108.413, lowerThreshold = 93.587\<rparr>)
     \<lparr>time = 5, open = 102, high = 102, low = 100, close = 101, volume = 25\<rparr>
   \<and> \<not> flagged (Some \<lparr>median = 101, mad = 1, threshold = 108.413, lowerThreshold = 93.587\<rparr>)
     (\<lparr>time = 5, open = 102, high = 102, low = 100, close = 101, volume = 25\<rparr>
        \<lparr>open := 5000, close := 5000\<rparr>)
   \<and> previousValidCandle (state_after spike_scenario 4)
       = Some (format_candle (spike_scenario ! 3))
   \<and> loop_body (detectOutliers spike_scenario) (state_after spike_scenario 4)
        (format_candle (spike_scenario ! 4))
      = (state_after spike_scenario 4)
          \<lparr>cleanedCandles := cleanedCandles (state_after spike_scenario 4)
             @ [corrected (format_candle (spike_scenario ! 3))
                  (format_candle (spike_scenario ! 4))]\<rparr>"
proof -
  let ?s = "\<lparr>median = 101, mad = 1, threshold = 108.413, lowerThreshold = 93.587\<rparr>"
  have st: "previousValidCandle (state_after spike_scenario 4)
              = Some (format_candle (spike_scenario ! 3))"
    unfolding state_after_def detectOutliers_format stats_spike_scenario
    by (simp add: spike_scenario_def eval_defs)
  have hi: "high (format_candle (spike_scenario ! 4)) > threshold ?s"
    by (simp add: spike_scenario_def format_candle_def)
  show ?thesis
    using flagged_iff_high_or_low_outside
      [of ?s "\<lparr>time = 5, open = 102, high = 102, low = 100, close = 101, volume = 25\<rparr>"
          5000 5000 "state_after spike_scenario 4" "format_candle (spike_scenario ! 3)"
          "format_candle (spike_scenario ! 4)"] st hi
    unfolding stats_spike_scenario
    by simp
qed

subsection \<open>C5: clean data\<close>

text \<open>
  C5. If no candle of the input is flagged, the output equals the input, candle by
  candle and field by field.
\<close>

theorem clean_data_unchanged:
  assumes "\<forall>c \<in> set cs. \<not> flagged (detectOutliers cs) c"
  shows "sanitize cs = cs"
proof (rule nth_equalityI)
  show "length (sanitize cs) = length cs" by (rule length_sanitize)
next
  fix i assume "i < length (sanitize cs)"
  then have i: "i < length cs" by (simp add: length_sanitize)
  then have "\<not> flagged (detectOutliers cs) (cs ! i)" using assms by simp
  with i show "sanitize cs ! i = cs ! i" by (rule unflagged_step(1))
qed

text \<open>C5 on \<open>clean_scenario\<close>.\<close>

theorem clean_data_unchanged_witness:
  "clean_scenario \<noteq> []
   \<and> filter (flagged (detectOutliers clean_scenario)) clean_scenario = []
   \<and> sanitize clean_scenario = clean_scenario"
proof -
  have h: "\<forall>c \<in> set clean_scenario. \<not> flagged (detectOutliers clean_scenario) c"
    unfolding stats_clean_scenario
    by (simp add: clean_scenario_def flagged_def isOutlierHigh_def isOutlierLow_def)
  have ne: "clean_scenario \<noteq> []" by (simp add: clean_scenario_def)
  have none: "filter (flagged (detectOutliers clean_scenario)) clean_scenario = []"
    using h by (simp add: filter_empty_conv)
  from clean_data_unchanged [OF h] none ne show ?thesis by blast
qed

subsection \<open>C6: length and order\<close>

text \<open>
  C6. The output has the length of the input, and its candle at index \<open>k\<close> is the
  one iteration \<open>k\<close> emitted for input candle \<open>k\<close>: the times come out in the
  order they came in.
\<close>

theorem length_and_order_preserved:
  "length (sanitize cs) = length cs
   \<and> (\<forall>k < length cs.
        sanitize cs ! k =
          strip_original
            (candleToAdd (detectOutliers cs) (previousValidCandle (state_after cs k))
               (format_candle (cs ! k))))
   \<and> map time (sanitize cs) = map time cs"
proof -
  have t: "time (sanitize cs ! k) = time (cs ! k)" if "k < length cs" for k
    using that
    by (simp add: sanitize_nth candleToAdd_def strip_original_def corrected_def
          format_candle_def split: option.splits)
  have "map time (sanitize cs) = map time cs"
    by (rule nth_equalityI) (simp_all add: length_sanitize t)
  then show ?thesis by (simp add: length_sanitize sanitize_nth)
qed

text \<open>C6 on the scenario of the specification.\<close>

theorem length_and_order_preserved_witness:
  "length (sanitize spike_scenario) = 5 \<and> length spike_scenario = 5
   \<and> map time (sanitize spike_scenario) = [1, 2, 3, 4, 5]
   \<and> map time spike_scenario = [1, 2, 3, 4, 5]"
  using length_and_order_preserved [of spike_scenario]
  by (simp add: spike_scenario_def)

subsection \<open>C7: time and volume\<close>

text \<open>
  C7. At every index the output candle has the time and the volume of the input
  candle, corrected or not.
\<close>

theorem time_volume_fidelity:
  assumes "i < length cs"
  shows "time (sanitize cs ! i) = time (cs ! i) \<and> volume (sanitize cs ! i) = volume (cs ! i)"
  using assms
  by (simp add: sanitize_nth candleToAdd_def strip_original_def corrected_def
        format_candle_def split: option.splits)

text \<open>C7 on the corrected candle of the specification's scenario.\<close>

theorem time_volume_fidelity_witness:
  "4 < length spike_scenario
   \<and> sanitize spike_scenario ! 4 \<noteq> spike_scenario ! 4
   \<and> time (sanitize spike_scenario ! 4) = 5 \<and> time (spike_scenario ! 4) = 5
   \<and> volume (sanitize spike_scenario ! 4) = 25 \<and> volume (spike_scenario ! 4) = 25"
proof -
  have l: "4 < length spike_scenario" by (simp add: spike_scenario_def)
  have n: "sanitize spike_scenario ! 4 \<noteq> spike_scenario ! 4"
    unfolding sanitize_spike_scenario by (simp add: spike_scenario_def)
  show ?thesis
    using time_volume_fidelity [OF l] l n by (simp add: spike_scenario_def)
qed

subsection \<open>C8: the empty answer and the error reply\<close>

text \<open>
  C8. A missing or empty answer of the provider is rejected before \<open>sanitize\<close> runs,
  with the message of line 95; that error and a rejection by the provider are both
  answered with status 500 and a payload of an error message and a details string;
  on a non-empty answer \<open>sanitize\<close> reads no \<open>undefined\<close> statistic and the reply is
  status 200 with its result. No other reply exists.
\<close>

theorem empty_input_rejected_by_caller:
  "getCandlesticks (Resolved None) =
      \<lparr>status = 500,
       body = ErrorPayload ''No candle data received from Binance''
                (Some ''Failed to fetch candle data from Binance API'')\<rparr>
   \<and> getCandlesticks (Resolved (Some [])) =
      \<lparr>status = 500,
       body = ErrorPayload ''No candle data received from Binance''
                (Some ''Failed to fetch candle data from Binance API'')\<rparr>
   \<and> getCandlesticks (Rejected msg) =
      \<lparr>status = 500,
       body = ErrorPayload msg (Some ''Failed to fetch candle data from Binance API'')\<rparr>
   \<and> (cs \<noteq> [] \<longrightarrow>
        getCandlesticks (Resolved (Some cs)) = \<lparr>status = 200, body = Candles (sanitize cs)\<rparr>
        \<and> detectOutliers cs \<noteq> None)
   \<and> (status (getCandlesticks r) = 200 \<and> (\<exists>out. body (getCandlesticks r) = Candles out)
       \<or> status (getCandlesticks r) = 500
           \<and> (\<exists>e d. body (getCandlesticks r) = ErrorPayload e (Some d)))"
proof -
  have "status (getCandlesticks r) = 200 \<and> (\<exists>out. body (getCandlesticks r) = Candles out)
       \<or> status (getCandlesticks r) = 500
           \<and> (\<exists>e d. body (getCandlesticks r) = ErrorPayload e (Some d))"
    by (cases "try_block r") (simp_all add: getCandlesticks_def)
  moreover have "detectOutliers cs \<noteq> None" if "cs \<noteq> []"
    using that by (simp add: detectOutliers_nonempty)
  ultimately show ?thesis
    by (simp add: getCandlesticks_def try_block_def)
qed

text \<open>C8 on the scenario of the specification, an empty answer and a rejection.\<close>

theorem empty_input_rejected_by_caller_witness:
  "spike_scenario \<noteq> []
   \<and> getCandlesticks (Resolved (Some spike_scenario)) =
      \<lparr>status = 200,
       body = Candles
        [\<lparr>time = 1, open = 100, high = 101, low = 99, close = 100, volume = 21\<rparr>,
         \<lparr>time = 2, open = 100, high = 102, low = 100, close = 101, volume = 22\<rparr>,
         \<lparr>time = 3, open = 101, high = 100, low = 98, close = 99, volume = 23\<rparr>,
         \<lparr>time = 4, open = 99, high = 103, low = 101, close = 102, volume = 24\<rparr>,
         \<lparr>time = 5, open = 99, high = 103, low = 101, close = 102, volume = 25\<rparr>]\<rparr>
   \<and> status (getCandlesticks (Resolved (Some []))) = 500
   \<and> status (getCandlesticks (Rejected ''ECONNRESET'')) = 500"
proof -
  have ne: "spike_scenario \<noteq> []" by (simp add: spike_scenario_def)
  show ?thesis
    using empty_input_rejected_by_caller [of "''ECONNRESET''" spike_scenario "Resolved None"] ne
    unfolding sanitize_spike_scenario by simp
qed

subsection \<open>C9: the first candle\<close>

text \<open>
  C9. For a non-empty input the first output candle equals the first input candle
  in every field, flagged or not.
\<close>

theorem first_candle_unchanged:
  assumes "cs \<noteq> []"
  shows "sanitize cs ! 0 = cs ! 0"
  using assms by (rule first_step)

text \<open>C9 on an input whose first candle is flagged.\<close>

theorem first_candle_unchanged_witness:
  "leading_outliers \<noteq> []
   \<and> flagged (detectOutliers leading_outliers) (leading_outliers ! 0)
   \<and> sanitize leading_outliers ! 0
       = \<lparr>time = 1, open = 1000, high = 1000, low = 1000, close = 1000, volume = 11\<rparr>
   \<and> leading_outliers ! 0
       = \<lparr>time = 1, open = 1000, high = 1000, low = 1000, close = 1000, volume = 11\<rparr>"
proof -
  have ne: "leading_outliers \<noteq> []" by (simp add: leading_outliers_def)
  have f: "flagged (detectOutliers leading_outliers) (leading_outliers ! 0)"
    unfolding stats_leading_outliers
    by (simp add: flagged_def isOutlierHigh_def isOutlierLow_def leading_outliers_def)
  have v: "leading_outliers ! 0
       = \<lparr>time = 1, open = 1000, high = 1000, low = 1000, close = 1000, volume = 11\<rparr>"
    by (simp add: leading_outliers_def)
  from first_candle_unchanged [OF ne] ne f v show ?thesis by simp
qed

subsection \<open>C10: a band of width 0\<close>

text \<open>
  C10. When the MAD is 0 both thresholds equal the median; every candle whose high
  is above the median or whose low is below it is flagged; and where a candle is
  stored, such a candle is emitted with the stored candle's open, high, low and
  close and its own time and volume.
\<close>

theorem degenerate_band:
  assumes "detectOutliers cs = Some s" and "mad s = 0"
  shows "threshold s = median s \<and> lowerThreshold s = median s
    \<and> (\<forall>c :: candle. high c > median s \<or> low c < median s \<longrightarrow> flagged (Some s) c)
    \<and> (\<forall>k p. k < length cs \<and> (high (cs ! k) > median s \<or> low (cs ! k) < median s)
               \<and> previousValidCandle (state_after cs k) = Some p
          \<longrightarrow> sanitize cs ! k =
                \<lparr>time = time (cs ! k), open = open p, high = high p, low = low p,
                 close = close p, volume = volume (cs ! k)\<rparr>)"
proof -
  have up: "threshold s = median s" and lo: "lowerThreshold s = median s"
    using thresholds_of_stats [OF assms(1)] assms(2) by simp_all
  have fl: "flagged (Some s) c" if "high c > median s \<or> low c < median s" for c :: candle
    using that by (auto simp add: flagged_def isOutlierHigh_def isOutlierLow_def up lo)
  have sub: "sanitize cs ! k =
                \<lparr>time = time (cs ! k), open = open p, high = high p, low = low p,
                 close = close p, volume = volume (cs ! k)\<rparr>"
    if "k < length cs" "high (cs ! k) > median s \<or> low (cs ! k) < median s"
      "previousValidCandle (state_after cs k) = Some p" for k p
  proof -
    have "flagged (detectOutliers cs) (cs ! k)" using fl [OF that(2)] assms(1) by simp
    from flagged_step(1) [OF that(1) this that(3)] show ?thesis
      by (simp add: fields_strip_corrected format_candle_def)
  qed
  from up lo fl sub show ?thesis by blast
qed

text \<open>C10 on \<open>flat_scenario\<close>, last candle.\<close>

theorem degenerate_band_witness:
  "detectOutliers flat_scenario
     = Some \<lparr>median = 100, mad = 0, threshold = 100, lowerThreshold = 100\<rparr>
   \<and> 4 < length flat_scenario \<and> high (flat_scenario ! 4) > 100
   \<and> previousValidCandle (state_after flat_scenario 4) = Some (format_candle (flat_scenario ! 3))
   \<and> sanitize flat_scenario ! 4
       = \<lparr>time = 5, open = 100, high = 100, low = 100, close = 100, volume = 35\<rparr>"
proof -
  let ?s = "\<lparr>median = 100, mad = 0, threshold = 100, lowerThreshold = 100\<rparr>"
  have m: "mad ?s = 0" by simp
  have l: "4 < length flat_scenario" and h: "high (flat_scenario ! 4) > 100"
    by (simp_all add: flat_scenario_def)
  have st: "previousValidCandle (state_after flat_scenario 4)
              = Some (format_candle (flat_scenario ! 3))"
    unfolding state_after_def detectOutliers_format stats_flat_scenario
    by (simp add: flat_scenario_def eval_defs)
  from degenerate_band [OF stats_flat_scenario m]
  have "\<forall>k p. k < length flat_scenario
               \<and> (high (flat_scenario ! k) > median ?s \<or> low (flat_scenario ! k) < median ?s)
               \<and> previousValidCandle (state_after flat_scenario k) = Some p
          \<longrightarrow> sanitize flat_scenario ! k =
                \<lparr>time = time (flat_scenario ! k), open = open p, high = high p, low = low p,
                 close = close p, volume = volume (flat_scenario ! k)\<rparr>"
    by blast
  from this [rule_format, of 4 "format_candle (flat_scenario ! 3)"] l h st
  have "sanitize flat_scenario ! 4 =
      \<lparr>time = time (flat_scenario ! 4), open = open (format_candle (flat_scenario ! 3)),
       high = high (format_candle (flat_scenario ! 3)),
       low = low (format_candle (flat_scenario ! 3)),
       close = close (format_candle (flat_scenario ! 3)),
       volume = volume (flat_scenario ! 4)\<rparr>"
    by simp
  then have "sanitize flat_scenario ! 4
       = \<lparr>time = 5, open = 100, high = 100, low = 100, close = 100, volume = 35\<rparr>"
    by (simp add: flat_scenario_def format_candle_def)
  with stats_flat_scenario l h st show ?thesis by blast
qed

end
